theory Spec2Isabelle
  imports Main "HOL-Library.Sublist"
begin

section \<open>Python strings\<close>

text \<open>
  A Python \<^verbatim>\<open>str\<close> is a sequence of code points. It is modelled as a \<^typ>\<open>string\<close>
  with one \<^typ>\<open>char\<close> per code point, which covers the code points 0 to 255
  (ASCII and Latin-1, umlauts and sharp s included). The character classes below are
  Python 3's on that range: \<^verbatim>\<open>str.isspace\<close> (used by \<^verbatim>\<open>split()\<close>,
  \<^verbatim>\<open>strip()\<close> and the pattern \<^verbatim>\<open>\s\<close>), the pattern \<^verbatim>\<open>\w\<close> and
  \<^verbatim>\<open>str.lower\<close>, which maps each of these code points to one code point of the
  same range.
\<close>

definition is_space :: "char \<Rightarrow> bool" where
  "is_space c =
     (let n = (of_char c :: nat)
      in (9 \<le> n \<and> n \<le> 13) \<or> (28 \<le> n \<and> n \<le> 32) \<or> n = 133 \<or> n = 160)"

definition is_word :: "char \<Rightarrow> bool" where
  "is_word c =
     (let n = (of_char c :: nat)
      in (48 \<le> n \<and> n \<le> 57) \<or> (65 \<le> n \<and> n \<le> 90) \<or> n = 95 \<or> (97 \<le> n \<and> n \<le> 122)
         \<or> n = 170 \<or> n = 178 \<or> n = 179 \<or> n = 181 \<or> n = 185 \<or> n = 186
         \<or> (188 \<le> n \<and> n \<le> 190) \<or> (192 \<le> n \<and> n \<le> 214)
         \<or> (216 \<le> n \<and> n \<le> 246) \<or> (248 \<le> n \<and> n \<le> 255))"

definition lower_char :: "char \<Rightarrow> char" where
  "lower_char c =
     (let n = (of_char c :: nat)
      in if (65 \<le> n \<and> n \<le> 90) \<or> (192 \<le> n \<and> n \<le> 222 \<and> n \<noteq> 215)
         then char_of (n + 32) else c)"

definition lower :: "string \<Rightarrow> string" where
  "lower s = map lower_char s"

text \<open>\<^verbatim>\<open>sub in s\<close>: \<open>sub\<close> occurs in \<open>s\<close> as a contiguous run.\<close>

fun py_in :: "string \<Rightarrow> string \<Rightarrow> bool" where
  "py_in sub [] = (sub = [])"
| "py_in sub (c # cs) = (prefix sub (c # cs) \<or> py_in sub cs)"

text \<open>
  \<^verbatim>\<open>s.split()\<close>: the maximal runs of non-whitespace characters, in order.
  \<open>cur\<close> is the token being read.
\<close>

fun split_from :: "string \<Rightarrow> string \<Rightarrow> string list" where
  "split_from cur [] = (if cur = [] then [] else [cur])"
| "split_from cur (c # cs) =
     (if is_space c then (if cur = [] then split_from [] cs else cur # split_from [] cs)
      else split_from (cur @ [c]) cs)"

definition split :: "string \<Rightarrow> string list" where
  "split s = split_from [] s"

text \<open>\<^verbatim>\<open>sep.join(xs)\<close>\<close>

fun join :: "string \<Rightarrow> string list \<Rightarrow> string" where
  "join sep [] = []"
| "join sep [x] = x"
| "join sep (x # y # ys) = x @ sep @ join sep (y # ys)"

section \<open>Name parser (scraper.py, extract\_name\_parts)\<close>

definition titles :: "string list" where
  "titles = [''Prof.'', ''Dr.'', ''Dr.-Ing.'', ''Jun.-Prof.'', ''Apl.'', ''rer.'', ''nat.'',
             ''phil.'', ''habil.'', ''PD'', ''M.A.'', ''M.Sc.'', ''MBA'', ''LL.M.'', ''Dipl.-'']"

text \<open>
  The loop condition
  \<^verbatim>\<open>any(name_parts[0].startswith(t) or name_parts[0] == t for t in titles)\<close>.
\<close>

definition is_title_token :: "string \<Rightarrow> bool" where
  "is_title_token p = list_ex (\<lambda>t. prefix t p \<or> p = t) titles"

text \<open>
  The loop \<^verbatim>\<open>while name_parts and ...: title_parts.append(name_parts.pop(0))\<close>,
  returning \<open>(title_parts, name_parts)\<close> as they stand when it ends.
\<close>

fun strip_titles :: "string list \<Rightarrow> string list \<Rightarrow> string list \<times> string list" where
  "strip_titles title_parts [] = (title_parts, [])"
| "strip_titles title_parts (p # ps) =
     (if is_title_token p then strip_titles (title_parts @ [p]) ps
      else (title_parts, p # ps))"

text \<open>The result is \<open>(first_name, last_name, title)\<close>; \<open>None\<close> is Python's \<^verbatim>\<open>None\<close>.\<close>

definition extract_name_parts :: "string \<Rightarrow> string option \<times> string \<times> string option" where
  "extract_name_parts full_name =
     (case strip_titles [] (split full_name) of
        (title_parts, name_parts) \<Rightarrow>
          (let title = (if title_parts \<noteq> [] then Some (join '' '' title_parts) else None)
           in if length name_parts \<ge> 2
              then (Some (join '' '' (butlast name_parts)), last name_parts, title)
              else if length name_parts = 1
              then (None, hd name_parts, title)
              else (None, full_name, title)))"

section \<open>Person category classifier (scraper.py, determine\_person\_category)\<close>

text \<open>
  The German keyword of the AdjunctProfessor rule, a-u-sharp s-e-r-p-l-a-n-m-a umlaut-sharp
  s-i-g: sharp s is code point 223, a-umlaut is code point 228.
\<close>

definition ausserplanmaessig :: string where
  "ausserplanmaessig = ''au'' @ [CHR 0xDF] @ ''erplanm'' @ [CHR 0xE4, CHR 0xDF] @ ''ig''"

definition determine_person_category :: "string \<Rightarrow> string \<Rightarrow> string \<Rightarrow> string" where
  "determine_person_category text url title =
     (let combined = lower (text @ '' '' @ url @ '' '' @ title)
      in if py_in ''juniorprof'' combined \<or> py_in ''junior professor'' combined
            \<or> py_in ''jun.-prof'' combined
         then ''JuniorProfessor''
         else if py_in ''honorar'' combined \<or> py_in ''honorary'' combined
         then ''HonoraryProfessor''
         else if py_in ''emerit'' combined
         then ''EmeritusProfessor''
         else if py_in ''gastprof'' combined \<or> py_in ''visiting prof'' combined
         then ''VisitingProfessor''
         else if py_in ''apl.'' combined \<or> py_in ''adjunct'' combined
            \<or> py_in ausserplanmaessig combined
         then ''AdjunctProfessor''
         else if py_in ''prof.'' combined \<or> py_in ''professor'' combined
         then ''Professor''
         else if py_in ''post-doc'' combined \<or> py_in ''postdoc'' combined
         then ''PostDoc''
         else if py_in ''phd'' combined \<or> py_in ''doktorand'' combined
            \<or> py_in ''doctoral'' combined
         then ''PhDStudent''
         else if py_in ''lecturer'' combined \<or> py_in ''lektor'' combined
            \<or> py_in ''lehrbeauft'' combined
         then ''Lecturer''
         else if py_in ''research assistant'' combined \<or> py_in ''wissenschaftl'' combined
         then ''ResearchAssistant''
         else if py_in ''visiting scientist'' combined \<or> py_in ''gastwissenschaft'' combined
         then ''VisitingScientist''
         else if py_in ''hiwi'' combined \<or> py_in ''student assistant'' combined
            \<or> py_in ''hilfskraft'' combined
         then ''StudentAssistant''
         else if py_in ''dr.'' combined \<and> \<not> py_in ''prof'' combined
         then ''PostDoc''
         else ''AcademicStaff'')"

subsection \<open>The decision list of the specification\<close>

text \<open>
  The specification's ordered decision list: each rule is a category with the markers
  that select it, the rules are tried top to bottom on the combined text, and the first
  rule with a marker in the text wins. When no rule matches, a doctoral-title marker
  without a professor marker gives PostDoc, and anything else the default.
\<close>

definition category_rules :: "(string \<times> string list) list" where
  "category_rules =
     [(''JuniorProfessor'', [''juniorprof'', ''junior professor'', ''jun.-prof'']),
      (''HonoraryProfessor'', [''honorar'', ''honorary'']),
      (''EmeritusProfessor'', [''emerit'']),
      (''VisitingProfessor'', [''gastprof'', ''visiting prof'']),
      (''AdjunctProfessor'', [''apl.'', ''adjunct'', ausserplanmaessig]),
      (''Professor'', [''prof.'', ''professor'']),
      (''PostDoc'', [''post-doc'', ''postdoc'']),
      (''PhDStudent'', [''phd'', ''doktorand'', ''doctoral'']),
      (''Lecturer'', [''lecturer'', ''lektor'', ''lehrbeauft'']),
      (''ResearchAssistant'', [''research assistant'', ''wissenschaftl'']),
      (''VisitingScientist'', [''visiting scientist'', ''gastwissenschaft'']),
      (''StudentAssistant'', [''hiwi'', ''student assistant'', ''hilfskraft''])]"

fun first_match :: "(string \<times> string list) list \<Rightarrow> string \<Rightarrow> string option" where
  "first_match [] combined = None"
| "first_match ((cat, markers) # rules) combined =
     (if list_ex (\<lambda>m. py_in m combined) markers then Some cat
      else first_match rules combined)"

definition classify_spec :: "string \<Rightarrow> string" where
  "classify_spec combined =
     (case first_match category_rules combined of
        Some cat \<Rightarrow> cat
      | None \<Rightarrow>
          if py_in ''dr.'' combined \<and> \<not> py_in ''prof'' combined then ''PostDoc''
          else ''AcademicStaff'')"

definition junior_marker :: "string \<Rightarrow> bool" where
  "junior_marker combined =
     (py_in ''juniorprof'' combined \<or> py_in ''junior professor'' combined
      \<or> py_in ''jun.-prof'' combined)"

section \<open>URI canonicalizer\<close>

text \<open>
  \<^verbatim>\<open>re.sub(r'[...]+', '-', s)\<close> for a character class: every maximal run of
  characters of the class \<open>P\<close> is replaced by the one character \<open>r\<close>.
\<close>

function sub_runs :: "(char \<Rightarrow> bool) \<Rightarrow> char \<Rightarrow> string \<Rightarrow> string" where
  "sub_runs P r [] = []"
| "sub_runs P r (c # cs) =
     (if P c then r # sub_runs P r (dropWhile P cs) else c # sub_runs P r cs)"
  by pat_completeness auto
termination
  by (relation "measure (\<lambda>(P, r, s). length s)")
     (auto simp: length_dropWhile_le less_Suc_eq_le)

text \<open>
  \<^verbatim>\<open>s.strip()\<close> is \<open>py_strip is_space s\<close>, and \<^verbatim>\<open>s.strip('-')\<close> is
  \<open>py_strip is_hyphen s\<close>: the characters of the class are removed at both ends.
\<close>

definition py_strip :: "(char \<Rightarrow> bool) \<Rightarrow> string \<Rightarrow> string" where
  "py_strip P s = rev (dropWhile P (rev (dropWhile P s)))"

definition is_hyphen :: "char \<Rightarrow> bool" where
  "is_hyphen c = (c = CHR ''-'')"

text \<open>The class \<^verbatim>\<open>[a-z0-9]\<close>.\<close>

definition is_az09 :: "char \<Rightarrow> bool" where
  "is_az09 c =
     (let n = (of_char c :: nat) in (97 \<le> n \<and> n \<le> 122) \<or> (48 \<le> n \<and> n \<le> 57))"

text \<open>The characters that \<^verbatim>\<open>re.sub(r'[^\w\s-]', '', s)\<close> keeps.\<close>

definition keep_word :: "char \<Rightarrow> bool" where
  "keep_word c = (is_word c \<or> is_space c \<or> is_hyphen c)"

text \<open>The characters that \<^verbatim>\<open>re.sub(r'[^a-z0-9\s-]', '', s)\<close> keeps.\<close>

definition keep_az09 :: "char \<Rightarrow> bool" where
  "keep_az09 c = (is_az09 c \<or> is_space c \<or> is_hyphen c)"

definition INSTANCE_NS :: string where
  "INSTANCE_NS = ''http://leuphana.de/resource/''"

subsection \<open>scraper.py, create\_uri\<close>

definition create_uri :: "string \<Rightarrow> string \<Rightarrow> string" where
  "create_uri entity_type name =
     (let clean_name = filter keep_word (lower name);
          clean_name = sub_runs is_space CHR ''-'' (py_strip is_space clean_name);
          clean_name = sub_runs is_hyphen CHR ''-'' clean_name
      in ''http://leuphana.de/resource/'' @ entity_type @ ''/'' @ clean_name)"

subsection \<open>rdf\_generator.py, name\_to\_uri\<close>

text \<open>
  The nodes of an RDF graph: a \<^verbatim>\<open>URIRef\<close>, or a \<^verbatim>\<open>Literal\<close> with its lexical
  value, its language tag and its datatype (both optional).
\<close>

datatype node = URIRef string | Literal string "string option" "string option"

definition name_to_uri :: "string \<Rightarrow> string \<Rightarrow> node" where
  "name_to_uri entity_type name =
     (let slug = lower name;
          slug = filter keep_az09 slug;
          slug = sub_runs is_space CHR ''-'' slug;
          slug = sub_runs is_hyphen CHR ''-'' slug;
          slug = py_strip is_hyphen slug
      in URIRef (INSTANCE_NS @ entity_type @ ''/'' @ slug))"

subsection \<open>The canonical slug of the specification\<close>

text \<open>
  Section 4.1 of the specification: lower-case, strip the characters outside a to z, 0 to
  9, space and hyphen, collapse whitespace runs to single hyphens, collapse repeated
  hyphens, trim leading and trailing hyphens. "Space" is read as any whitespace
  character, since the next step collapses whitespace runs.
\<close>

definition strip_outside :: "string \<Rightarrow> string" where
  "strip_outside s = filter (\<lambda>c. is_az09 c \<or> is_space c \<or> c = CHR ''-'') s"

definition collapse_whitespace :: "string \<Rightarrow> string" where
  "collapse_whitespace s = sub_runs is_space CHR ''-'' s"

definition collapse_hyphens :: "string \<Rightarrow> string" where
  "collapse_hyphens s = sub_runs (\<lambda>c. c = CHR ''-'') CHR ''-'' s"

definition trim_hyphens :: "string \<Rightarrow> string" where
  "trim_hyphens s = py_strip (\<lambda>c. c = CHR ''-'') s"

definition canonical_slug :: "string \<Rightarrow> string" where
  "canonical_slug name =
     trim_hyphens (collapse_hyphens (collapse_whitespace (strip_outside (lower name))))"

text \<open>
  A name is plain when, lower-cased, each of its word characters is one of a to z and 0
  to 9 (it has no underscore and no letter or digit outside ASCII), and when what
  \<open>create_uri\<close> keeps of it, trimmed of whitespace, neither begins nor ends with a
  hyphen.
\<close>

definition edge_hyphen :: "string \<Rightarrow> bool" where
  "edge_hyphen s = (s \<noteq> [] \<and> (hd s = CHR ''-'' \<or> last s = CHR ''-''))"

definition plain_name :: "string \<Rightarrow> bool" where
  "plain_name name =
     (list_all (\<lambda>c. is_az09 c \<or> \<not> is_word c) (lower name)
      \<and> \<not> edge_hyphen (py_strip is_space (filter keep_word (lower name))))"

section \<open>Graph builder (rdf\_generator.py)\<close>

text \<open>
  An rdflib \<^verbatim>\<open>Graph\<close> is a set of triples of nodes. It is modelled as the list of its
  triples in the order they were first added, without repetition; \<open>add\<close> is
  \<^verbatim>\<open>graph.add\<close>, which leaves a graph that holds the triple as it is.
  \<^verbatim>\<open>graph.subjects(p, o)\<close> and \<^verbatim>\<open>graph.objects(s, p)\<close> enumerate in that order.
\<close>

type_synonym triple = "node \<times> node \<times> node"

type_synonym graph = "triple list"

definition add :: "triple \<Rightarrow> graph \<Rightarrow> graph" where
  "add t g = (if t \<in> set g then g else g @ [t])"

definition subjects :: "graph \<Rightarrow> node \<Rightarrow> node \<Rightarrow> node list" where
  "subjects g p ob = map fst (filter (\<lambda>(s, p', o'). p' = p \<and> o' = ob) g)"

definition objects :: "graph \<Rightarrow> node \<Rightarrow> node \<Rightarrow> node list" where
  "objects g s p = map (\<lambda>(s', p', o'). o') (filter (\<lambda>(s', p', o'). s' = s \<and> p' = p) g)"

text \<open>\<^verbatim>\<open>(s, p, None) in graph\<close>: some triple has this subject and predicate.\<close>

definition has_sp :: "graph \<Rightarrow> node \<Rightarrow> node \<Rightarrow> bool" where
  "has_sp g s p = list_ex (\<lambda>(s', p', o'). s' = s \<and> p' = p) g"

text \<open>\<^verbatim>\<open>str(node)\<close>: the URI of a \<^verbatim>\<open>URIRef\<close>, the lexical value of a literal.\<close>

fun node_str :: "node \<Rightarrow> string" where
  "node_str (URIRef u) = u"
| "node_str (Literal v lang dt) = v"

text \<open>The namespaces: \<^verbatim>\<open>LEUPH\<close> is the ontology namespace of config.py.\<close>

definition LEUPH :: "string \<Rightarrow> node" where
  "LEUPH x = URIRef (''http://leuphana.de/ontology#'' @ x)"

definition RDF_type :: node where
  "RDF_type = URIRef ''http://www.w3.org/1999/02/22-rdf-syntax-ns#type''"

definition RDFS_label :: node where
  "RDFS_label = URIRef ''http://www.w3.org/2000/01/rdf-schema#label''"

definition SCHEMA :: "string \<Rightarrow> node" where
  "SCHEMA x = URIRef (''http://schema.org/'' @ x)"

definition XSD :: "string \<Rightarrow> string" where
  "XSD x = ''http://www.w3.org/2001/XMLSchema#'' @ x"

definition university_uri :: node where
  "university_uri = URIRef (INSTANCE_NS @ ''university/leuphana'')"

definition college_uri :: node where
  "college_uri = URIRef (INSTANCE_NS @ ''school/college'')"

text \<open>
  \<^verbatim>\<open>if d.get(k): ... d[k] ...\<close> for an optional string: the body runs when the value
  is neither \<^verbatim>\<open>None\<close> nor empty. \<open>when\<close> is a plain conditional step.
\<close>

definition when_str :: "string option \<Rightarrow> (string \<Rightarrow> graph \<Rightarrow> graph) \<Rightarrow> graph \<Rightarrow> graph" where
  "when_str x f g = (case x of None \<Rightarrow> g | Some v \<Rightarrow> if v \<noteq> [] then f v g else g)"

definition "when" :: "bool \<Rightarrow> (graph \<Rightarrow> graph) \<Rightarrow> graph \<Rightarrow> graph" where
  "when b f g = (if b then f g else g)"

definition truthy :: "string option \<Rightarrow> bool" where
  "truthy x = (case x of None \<Rightarrow> False | Some v \<Rightarrow> v \<noteq> [])"

text \<open>\<^verbatim>\<open>str(n)\<close> of an integer, for \<^verbatim>\<open>Literal(n, datatype=XSD.integer)\<close>.\<close>

function str_nat :: "nat \<Rightarrow> string" where
  "str_nat n =
     (if n < 10 then [char_of (48 + n)] else str_nat (n div 10) @ [char_of (48 + n mod 10)])"
  by pat_completeness auto
termination
  by (relation "measure id") auto

definition str_int :: "int \<Rightarrow> string" where
  "str_int i = (if i < 0 then CHR ''-'' # str_nat (nat (- i)) else str_nat (nat i))"

text \<open>
  \<^verbatim>\<open>Literal(d, datatype=XSD.date)\<close>: when rdflib can parse the lexical form \<open>d\<close>
  it stores the normalised form (\<^verbatim>\<open>2024-01-05Z\<close> becomes \<^verbatim>\<open>2024-01-05\<close>), and it
  keeps \<open>d\<close> as it is otherwise. The normalisation is rdflib's, not this repository's:
  it is the parameter \<open>norm_date\<close> of the functions that build such literals.
\<close>

definition typed_date :: "(string \<Rightarrow> string) \<Rightarrow> string \<Rightarrow> node" where
  "typed_date norm_date d = Literal (norm_date d) None (Some (XSD ''date''))"

subsection \<open>Courses\<close>

record course =
  course_uri :: string
  course_name :: string
  course_description :: "string option"
  course_credit_points :: "int option"
  course_type :: "string option"
  course_part_of_program :: "string option"
  course_taught_by :: "string list"
  course_semester :: "string option"
  course_language :: "string option"
  course_webpage :: "string option"

definition add_course :: "course \<Rightarrow> graph \<Rightarrow> graph" where
  "add_course course_data g0 =
     (let uri = URIRef (course_uri course_data);
          g = add (uri, RDF_type, LEUPH ''Course'') g0;
          g = add (uri, RDF_type, SCHEMA ''Course'') g;
          g = add (uri, LEUPH ''name'', Literal (course_name course_data) (Some ''en'') None) g;
          g = add (uri, RDFS_label, Literal (course_name course_data) (Some ''en'') None) g;
          g = when_str (course_description course_data)
                (\<lambda>d. add (uri, LEUPH ''description'', Literal d (Some ''en'') None)) g;
          g = (case course_credit_points course_data of
                 None \<Rightarrow> g
               | Some n \<Rightarrow>
                   when (n \<noteq> 0)
                     (add (uri, LEUPH ''credits'', Literal (str_int n) None (Some (XSD ''integer'')))) g);
          g = when_str (course_type course_data)
                (\<lambda>t. add (uri, LEUPH ''courseType'', Literal t None None)) g;
          g = when_str (course_semester course_data)
                (\<lambda>t. add (uri, LEUPH ''semester'', Literal t None None)) g;
          g = when_str (course_language course_data)
                (\<lambda>t. add (uri, LEUPH ''language'', Literal t None None)) g;
          program_linked = truthy (course_part_of_program course_data);
          g = when_str (course_part_of_program course_data)
                (\<lambda>p g. add (URIRef p, LEUPH ''hasPart'', uri)
                         (add (uri, LEUPH ''partOf'', URIRef p) g)) g;
          g = when (\<not> program_linked)
                (\<lambda>g. add (college_uri, LEUPH ''offers'', uri)
                       (add (uri, LEUPH ''offeredBy'', college_uri) g)) g;
          g = fold (\<lambda>instructor g. add (uri, LEUPH ''taughtBy'', URIRef instructor)
                                   (add (URIRef instructor, LEUPH ''teaches'', uri) g))
                (course_taught_by course_data) g;
          g = when_str (course_webpage course_data)
                (\<lambda>w. add (uri, LEUPH ''webpage'', URIRef w)) g
      in g)"

subsection \<open>Core academic units\<close>

definition core_units :: "(string \<times> string \<times> string) list" where
  "core_units =
     [(INSTANCE_NS @ ''school/college'', ''College'',
       ''Leuphana College offers undergraduate (Bachelor) programs''),
      (INSTANCE_NS @ ''school/graduate-school'', ''Graduate School'',
       ''Leuphana Graduate School offers Master's programs''),
      (INSTANCE_NS @ ''school/professional-school'', ''Professional School'',
       ''Leuphana Professional School offers professional and continuing education programs'')]"

definition create_unit :: "string \<times> string \<times> string \<Rightarrow> graph \<Rightarrow> graph" where
  "create_unit unit g =
     (case unit of
        (u, name, description) \<Rightarrow>
          (let uri = URIRef u
           in if (uri, RDF_type, LEUPH ''School'') \<notin> set g
              then (let g = add (uri, RDF_type, LEUPH ''School'') g;
                        g = add (uri, LEUPH ''name'', Literal name (Some ''en'') None) g;
                        g = add (uri, RDFS_label, Literal name (Some ''en'') None) g;
                        g = add (uri, LEUPH ''description'', Literal description (Some ''en'') None) g;
                        g = add (uri, LEUPH ''partOf'', university_uri) g;
                        g = add (university_uri, LEUPH ''hasPart'', uri) g
                    in g)
              else g))"

definition create_core_academic_units :: "graph \<Rightarrow> graph" where
  "create_core_academic_units g = fold create_unit core_units g"

subsection \<open>Hiwi positions\<close>

record hiwi_position =
  hiwi_uri :: string
  hiwi_title :: string
  hiwi_description :: "string option"
  hiwi_department :: "string option"
  hiwi_contact_person :: "string option"
  hiwi_contact_email :: "string option"
  hiwi_posted_date :: "string option"
  hiwi_hours_per_week :: "string option"
  hiwi_webpage :: "string option"
  hiwi_source_url :: string

definition add_hiwi_position ::
  "(string \<Rightarrow> string) \<Rightarrow> hiwi_position \<Rightarrow> graph \<Rightarrow> graph" where
  "add_hiwi_position norm_date hiwi_data g0 =
     (let uri = URIRef (hiwi_uri hiwi_data);
          g = add (uri, RDF_type, LEUPH ''HiwiPosition'') g0;
          g = add (uri, LEUPH ''name'', Literal (hiwi_title hiwi_data) (Some ''en'') None) g;
          g = add (uri, RDFS_label, Literal (hiwi_title hiwi_data) (Some ''en'') None) g;
          g = when_str (hiwi_description hiwi_data)
                (\<lambda>d. add (uri, LEUPH ''description'', Literal d (Some ''en'') None)) g;
          g = when_str (hiwi_department hiwi_data)
                (\<lambda>d. add (uri, LEUPH ''postedBy'', name_to_uri ''institute'' d)) g;
          g = when_str (hiwi_contact_email hiwi_data)
                (\<lambda>e. add (uri, LEUPH ''contactEmail'', Literal e None None)) g;
          g = when_str (hiwi_posted_date hiwi_data)
                (\<lambda>d. add (uri, LEUPH ''postedDate'', typed_date norm_date d)) g;
          g = when_str (hiwi_hours_per_week hiwi_data)
                (\<lambda>h. add (uri, LEUPH ''hoursPerWeek'', Literal h None None)) g;
          g = when_str (hiwi_webpage hiwi_data)
                (\<lambda>w. add (uri, LEUPH ''webpage'', URIRef w)) g
      in g)"

subsection \<open>Relationship resolver\<close>

datatype py_error = IndexError

text \<open>\<^verbatim>\<open>xs[-k]\<close> for \<open>k\<close> at least 1: an \<^verbatim>\<open>IndexError\<close> when \<open>xs\<close> is shorter.\<close>

definition neg_index :: "'a list \<Rightarrow> nat \<Rightarrow> py_error + 'a" where
  "neg_index xs k =
     (if 1 \<le> k \<and> k \<le> length xs then Inr (xs ! (length xs - k)) else Inl IndexError)"

text \<open>\<^verbatim>\<open>s.split(sep)\<close> with a one-character separator; the result is never empty.\<close>

fun split_on :: "char \<Rightarrow> string \<Rightarrow> string list" where
  "split_on sep [] = [[]]"
| "split_on sep (c # cs) =
     (if c = sep then [] # split_on sep cs
      else (case split_on sep cs of [] \<Rightarrow> [[c]] | w # ws \<Rightarrow> (c # w) # ws))"

text \<open>\<^verbatim>\<open>s.rstrip('/')\<close> is \<open>py_rstrip (\<lambda>c. c = CHR ''/'') s\<close>.\<close>

definition py_rstrip :: "(char \<Rightarrow> bool) \<Rightarrow> string \<Rightarrow> string" where
  "py_rstrip P s = rev (dropWhile P (rev s))"

definition type_to_class :: "string \<Rightarrow> node option" where
  "type_to_class entity_type =
     (if entity_type = ''institute'' then Some (LEUPH ''Institute'')
      else if entity_type = ''research-center'' then Some (LEUPH ''ResearchCenter'')
      else if entity_type = ''school'' then Some (LEUPH ''School'')
      else None)"

text \<open>
  The loop over \<^verbatim>\<open>graph.subjects(RDF.type, rdf_class)\<close>: the first candidate whose
  lower-cased URI holds the abbreviation, or that stores an abbreviation equal to it
  ignoring case, is returned; \<open>None\<close> when the loop ends without a return.
\<close>

fun scan_candidates :: "graph \<Rightarrow> string \<Rightarrow> node list \<Rightarrow> node option" where
  "scan_candidates g abbrev [] = None"
| "scan_candidates g abbrev (s # ss) =
     (let s_str = lower (node_str s)
      in if py_in abbrev s_str \<or> suffix abbrev s_str then Some s
         else if list_ex (\<lambda>abbr_lit. lower (node_str abbr_lit) = abbrev)
                   (objects g s (LEUPH ''abbreviation''))
         then Some s
         else scan_candidates g abbrev ss)"

definition resolve_org_uri :: "graph \<Rightarrow> string \<Rightarrow> py_error + node" where
  "resolve_org_uri g uri_string =
     (let uri = URIRef uri_string
      in if has_sp g uri RDF_type then Inr uri
         else
           (let parts = split_on CHR ''/'' (py_rstrip (\<lambda>c. c = CHR ''/'') uri_string)
            in case (if parts \<noteq> [] then map_sum id lower (neg_index parts 1) else Inr [])
               of Inl e \<Rightarrow> Inl e
                | Inr abbrev \<Rightarrow>
                    (case (if length parts \<ge> 2 then neg_index parts 2 else Inr [])
                     of Inl e \<Rightarrow> Inl e
                      | Inr entity_type \<Rightarrow>
                          (case type_to_class entity_type of
                             None \<Rightarrow> Inr university_uri
                           | Some rdf_class \<Rightarrow>
                               (case scan_candidates g abbrev (subjects g RDF_type rdf_class)
                                of Some s \<Rightarrow> Inr s
                                 | None \<Rightarrow> Inr university_uri)))))"

subsection \<open>Research projects\<close>

record research_project =
  project_uri :: string
  project_name :: string
  project_description :: "string option"
  project_conducted_by :: "string option"
  project_principal_investigator :: "string option"
  project_funding_source :: "string option"
  project_start_date :: "string option"
  project_end_date :: "string option"
  project_webpage :: "string option"

definition add_research_project ::
  "(string \<Rightarrow> string) \<Rightarrow> research_project \<Rightarrow> graph \<Rightarrow> py_error + graph" where
  "add_research_project norm_date project_data g0 =
     (let uri = URIRef (project_uri project_data);
          g = add (uri, RDF_type, LEUPH ''ResearchProject'') g0;
          g = add (uri, LEUPH ''name'', Literal (project_name project_data) (Some ''en'') None) g;
          g = add (uri, RDFS_label, Literal (project_name project_data) (Some ''en'') None) g;
          g = when_str (project_description project_data)
                (\<lambda>d. add (uri, LEUPH ''description'', Literal d None None)) g;
          linked =
            (case (if truthy (project_conducted_by project_data)
                   then project_conducted_by project_data else None) of
               Some conducted_by \<Rightarrow>
                 (case resolve_org_uri g conducted_by of
                    Inl e \<Rightarrow> Inl e
                  | Inr org_uri \<Rightarrow>
                      Inr (add (org_uri, LEUPH ''conducts'', uri)
                            (add (uri, LEUPH ''conductedBy'', org_uri) g)))
             | None \<Rightarrow>
                 Inr (add (university_uri, LEUPH ''conducts'', uri)
                       (add (uri, LEUPH ''conductedBy'', university_uri) g)))
      in case linked of
           Inl e \<Rightarrow> Inl e
         | Inr g \<Rightarrow>
             Inr (let g = when_str (project_principal_investigator project_data)
                            (\<lambda>pi. add (URIRef pi, LEUPH ''worksOn'', uri)) g;
                      g = when_str (project_funding_source project_data)
                            (\<lambda>f. add (uri, LEUPH ''fundingSource'', Literal f None None)) g;
                      g = when_str (project_start_date project_data)
                            (\<lambda>d. add (uri, LEUPH ''startDate'', typed_date norm_date d)) g;
                      g = when_str (project_end_date project_data)
                            (\<lambda>d. add (uri, LEUPH ''endDate'', typed_date norm_date d)) g;
                      g = when_str (project_webpage project_data)
                            (\<lambda>w. add (uri, LEUPH ''webpage'', URIRef w)) g
                  in g))"

subsection \<open>The resolver of the specification\<close>


definition has_abbreviation :: "graph \<Rightarrow> string \<Rightarrow> node \<Rightarrow> bool" where
  "has_abbreviation g seg c =
     list_ex (\<lambda>a. lower (node_str a) = seg) (objects g c (LEUPH ''abbreviation''))"

definition uri_or_name_holds :: "graph \<Rightarrow> string \<Rightarrow> node \<Rightarrow> bool" where
  "uri_or_name_holds g seg c =
     (py_in seg (lower (node_str c))
      \<or> list_ex (\<lambda>n. py_in seg (lower (node_str n))) (objects g c (LEUPH ''name'')))"

definition trailing_segment :: "string \<Rightarrow> string" where
  "trailing_segment uri_string =
     lower (last (split_on CHR ''/'' (py_rstrip (\<lambda>c. c = CHR ''/'') uri_string)))"

definition kind_segment :: "string \<Rightarrow> string" where
  "kind_segment uri_string =
     (let parts = split_on CHR ''/'' (py_rstrip (\<lambda>c. c = CHR ''/'') uri_string)
      in if length parts \<ge> 2 then parts ! (length parts - 2) else [])"

text \<open>
  What the code's loop tests on a candidate, and the candidates it scans: the subjects
  typed with the class of the reference's kind segment.
\<close>

definition candidate_matches :: "graph \<Rightarrow> string \<Rightarrow> node \<Rightarrow> bool" where
  "candidate_matches g seg c = (py_in seg (lower (node_str c)) \<or> has_abbreviation g seg c)"

definition hinted_candidates :: "graph \<Rightarrow> string \<Rightarrow> node list" where
  "hinted_candidates g uri_string =
     (case type_to_class (kind_segment uri_string) of
        None \<Rightarrow> []
      | Some cls \<Rightarrow> subjects g RDF_type cls)"



section \<open>Entity registry (scraper.py)\<close>

text \<open>
  The scraper keeps one Python dict per entity kind, from URI to record. A dict keeps its
  keys in insertion order; \<open>dict_set\<close> is \<^verbatim>\<open>d[k] = v\<close>, which replaces the value of
  a key that is present and appends a new key, and \<open>dict_has\<close> is \<^verbatim>\<open>k in d\<close>.
\<close>

type_synonym ('k, 'v) dict = "('k \<times> 'v) list"

fun dict_set :: "'k \<Rightarrow> 'v \<Rightarrow> ('k, 'v) dict \<Rightarrow> ('k, 'v) dict" where
  "dict_set k v [] = [(k, v)]"
| "dict_set k v ((k', v') # d) =
     (if k' = k then (k, v) # d else (k', v') # dict_set k v d)"

definition dict_has :: "('k, 'v) dict \<Rightarrow> 'k \<Rightarrow> bool" where
  "dict_has d k = list_ex (\<lambda>(k', v). k' = k) d"

text \<open>The dataclass \<^verbatim>\<open>Person\<close>.\<close>

record person =
  person_uri :: string
  person_name :: string
  person_first_name :: "string option"
  person_last_name :: "string option"
  person_title :: "string option"
  person_category :: "string option"
  person_email :: "string option"
  person_phone :: "string option"
  person_office :: "string option"
  person_webpage :: "string option"
  person_institute :: "string option"
  person_school :: "string option"
  person_research_areas :: "string list"
  person_image_url :: "string option"
  person_source_url :: string

text \<open>
  \<^verbatim>\<open>Person(uri=..., name=..., ...)\<close> with the dataclass defaults for the fields a call
  does not name.
\<close>

definition new_person :: "string \<Rightarrow> string \<Rightarrow> person" where
  "new_person uri name =
     \<lparr>person_uri = uri, person_name = name, person_first_name = None,
      person_last_name = None, person_title = None, person_category = None,
      person_email = None, person_phone = None, person_office = None,
      person_webpage = None, person_institute = None, person_school = None,
      person_research_areas = [], person_image_url = None, person_source_url = []\<rparr>"

text \<open>The dataclasses \<^verbatim>\<open>Organization\<close> and \<^verbatim>\<open>Chair\<close>.\<close>

record organization =
  org_uri :: string
  org_name :: string
  org_type :: string
  org_abbreviation :: "string option"
  org_description :: "string option"
  org_parent :: "string option"
  org_webpage :: "string option"
  org_address :: "string option"
  org_members :: "string list"
  org_source_url :: string

record chair =
  chair_uri :: string
  chair_name :: string
  chair_description :: "string option"
  chair_parent :: "string option"
  chair_headed_by :: "string option"
  chair_webpage :: "string option"
  chair_team_members :: "string list"
  chair_source_url :: string

text \<open>The state of the scraper object that the functions below read and write.\<close>

record scraper =
  visited_urls :: "string set"
  persons :: "(string, person) dict"
  organizations :: "(string, organization) dict"
  chairs :: "(string, chair) dict"
  hiwi_positions :: "(string, hiwi_position) dict"

subsection \<open>scrape\_person\_list\_page, one link of the list\<close>

text \<open>
  What the loop body reads from a link of the page: its \<^verbatim>\<open>href\<close>, the absolute
  \<open>person_url\<close> that \<^verbatim>\<open>urljoin\<close> makes of it, whether \<^verbatim>\<open>is_allowed_url\<close> accepts
  that URL, the stripped link text, and the address of a \<^verbatim>\<open>mailto:\<close> link beside it,
  if there is one (already cut at the question mark).
\<close>

record list_link =
  link_href :: string
  link_person_url :: string
  link_allowed :: bool
  link_text :: string
  link_mailto :: "string option"

text \<open>\<^verbatim>\<open>x or y\<close> for an optional string \<open>x\<close>.\<close>

definition str_or :: "string option \<Rightarrow> string \<Rightarrow> string" where
  "str_or x y = (case x of None \<Rightarrow> y | Some v \<Rightarrow> if v \<noteq> [] then v else y)"

definition list_page_link :: "string option \<Rightarrow> string \<Rightarrow> list_link \<Rightarrow> scraper \<Rightarrow> scraper" where
  "list_page_link category full_url link st =
     (if link_href link = [] then st
      else if link_person_url link \<in> visited_urls st \<or> \<not> link_allowed link then st
      else
        (let name = link_text link
         in if name = [] \<or> length name < 3 then st
            else
              (case extract_name_parts name of
                 (first_name, last_name, title) \<Rightarrow>
                   (let person_category =
                          str_or category
                            (determine_person_category name (link_person_url link)
                               (str_or title []));
                        p = (new_person (create_uri ''person'' name) name)
                              \<lparr>person_first_name := first_name,
                               person_last_name := Some last_name,
                               person_title := title,
                               person_category := Some person_category,
                               person_webpage := Some (link_person_url link),
                               person_source_url := full_url\<rparr>;
                        p = (case link_mailto link of
                               None \<Rightarrow> p
                             | Some e \<Rightarrow> p\<lparr>person_email := Some e\<rparr>)
                    in st\<lparr>persons := dict_set (person_uri p) p (persons st),
                          visited_urls := insert (link_person_url link) (visited_urls st)\<rparr>))))"

subsection \<open>\_create\_chair\_from\_heading\<close>

text \<open>
  The loop \<^verbatim>\<open>for person_uri, person in self.persons.items()\<close> with its
  \<^verbatim>\<open>break\<close>: the URI of the first person whose name equals the professor's name or
  holds it.
\<close>

definition find_professor :: "(string, person) dict \<Rightarrow> string \<Rightarrow> string option" where
  "find_professor ps professor_name =
     map_option fst
       (find (\<lambda>(person_uri, p). person_name p = professor_name
                                 \<or> py_in professor_name (person_name p)) ps)"

text \<open>
  The loop over \<^verbatim>\<open>self.organizations.items()\<close> that looks for the parent institute.
  \<^verbatim>\<open>str.upper\<close> takes two code points below 256 (181 and 255) above 255, outside the strings
  modelled here, so it is the parameter \<open>upper\<close>.
\<close>

definition find_parent_institute ::
  "(string \<Rightarrow> string) \<Rightarrow> (string, organization) dict \<Rightarrow> string \<Rightarrow> string option" where
  "find_parent_institute upper orgs institute_key =
     map_option fst
       (find (\<lambda>(inst_uri, inst). org_type inst = ''Institute''
                                 \<and> py_in (upper institute_key) (upper (org_name inst))) orgs)"

definition create_chair_from_heading ::
  "(string \<Rightarrow> string) \<Rightarrow> string \<Rightarrow> string option \<Rightarrow> string \<Rightarrow> string \<Rightarrow> scraper \<Rightarrow> scraper" where
  "create_chair_from_heading upper chair_name0 professor_name source_url institute_key st =
     (let chair_name = py_strip is_space chair_name0
      in if chair_name = [] \<or> length chair_name < 10 then st
         else
           (let chair_uri = create_uri ''chair'' chair_name
            in if dict_has (chairs st) chair_uri then st
               else
                 (let parent_uri = find_parent_institute upper (organizations st) institute_key;
                      found = (case (if truthy professor_name then professor_name else None) of
                                 None \<Rightarrow> None
                               | Some pn \<Rightarrow> find_professor (persons st) pn);
                      (ps, headed_by_uri) =
                        (case (if truthy professor_name then professor_name else None) of
                           None \<Rightarrow> (persons st, None)
                         | Some pn \<Rightarrow>
                             if truthy found then (persons st, found)
                             else
                               (case extract_name_parts pn of
                                  (first_name, last_name, title) \<Rightarrow>
                                    (let professor =
                                           (new_person (create_uri ''person'' pn) pn)
                                             \<lparr>person_first_name := first_name,
                                              person_last_name := Some last_name,
                                              person_title := title,
                                              person_category := Some ''Professor'',
                                              person_source_url := source_url\<rparr>
                                     in (dict_set (person_uri professor) professor (persons st),
                                         Some (person_uri professor)))));
                      c = \<lparr>chair_uri = chair_uri, chair_name = chair_name,
                           chair_description = None, chair_parent = parent_uri,
                           chair_headed_by = headed_by_uri, chair_webpage = Some source_url,
                           chair_team_members = [], chair_source_url = source_url\<rparr>
                  in st\<lparr>persons := ps, chairs := dict_set chair_uri c (chairs st)\<rparr>)))"

text \<open>
  The test of the sibling \<^verbatim>\<open>_scrape_single_professorship\<close> on an existing person,
  \<^verbatim>\<open>holder_name in person.name or person.name in holder_name\<close>.
\<close>

definition holder_alias :: "string \<Rightarrow> string \<Rightarrow> bool" where
  "holder_alias holder_name name = (py_in holder_name name \<or> py_in name holder_name)"

text \<open>
  The find-or-create step of \<^verbatim>\<open>_scrape_single_professorship\<close> for a holder name that a
  pattern has matched: the first person that the test accepts, else a new professor.
\<close>

definition find_holder :: "(string, person) dict \<Rightarrow> string \<Rightarrow> string option" where
  "find_holder ps holder_name =
     map_option fst (find (\<lambda>(person_uri, p). holder_alias holder_name (person_name p)) ps)"

definition register_holder :: "string \<Rightarrow> string \<Rightarrow> scraper \<Rightarrow> scraper \<times> string option" where
  "register_holder holder_name url st =
     (if holder_name \<noteq> [] \<and> length holder_name > 3 then
        (let headed_by_uri = find_holder (persons st) holder_name
         in if truthy headed_by_uri then (st, headed_by_uri)
            else
              (case extract_name_parts holder_name of
                 (first_name, last_name, title) \<Rightarrow>
                   (let professor =
                          (new_person (create_uri ''person'' holder_name) holder_name)
                            \<lparr>person_first_name := first_name,
                             person_last_name := Some last_name,
                             person_title := title,
                             person_category := Some ''Professor'',
                             person_webpage := Some url,
                             person_source_url := url\<rparr>
                    in (st\<lparr>persons := dict_set (person_uri professor) professor (persons st)\<rparr>,
                        Some (person_uri professor)))))
      else (st, None))"

subsection \<open>scrape\_person\_profile\<close>



subsection \<open>\_scrape\_single\_hiwi\_position\<close>




text \<open>A course without a program, for the examples.\<close>

definition statistics_course :: course where
  "statistics_course =
     \<lparr>course_uri = ''http://leuphana.de/resource/course/statistics'',
      course_name = ''Statistics'', course_description = None,
      course_credit_points = Some 5, course_type = Some ''Lecture'',
      course_part_of_program = None, course_taught_by = [],
      course_semester = None, course_language = None, course_webpage = None\<rparr>"

text \<open>A position and a project, for the examples.\<close>

definition tutor_position :: hiwi_position where
  "tutor_position =
     \<lparr>hiwi_uri = ''http://leuphana.de/resource/hiwi-position/tutor-statistics'',
      hiwi_title = ''Tutor Statistics'', hiwi_description = None,
      hiwi_department = Some ''Institute of Ecology'', hiwi_contact_person = None,
      hiwi_contact_email = None, hiwi_posted_date = None, hiwi_hours_per_week = None,
      hiwi_webpage = None, hiwi_source_url = []\<rparr>"

definition soil_project :: research_project where
  "soil_project =
     \<lparr>project_uri = ''http://leuphana.de/resource/research-project/soil'',
      project_name = ''Soil'', project_description = None, project_conducted_by = None,
      project_principal_investigator = Some ''http://leuphana.de/resource/person/anna-schmidt'',
      project_funding_source = None, project_start_date = None, project_end_date = None,
      project_webpage = None\<rparr>"

text \<open>Graphs for the examples of the resolver.\<close>

definition ecology_graph :: graph where
  "ecology_graph =
     [(URIRef ''http://leuphana.de/resource/institute/institute-of-ecology'', RDF_type,
       LEUPH ''Institute'')]"





text \<open>A string without two hyphens in a row.\<close>

fun no_double :: "string \<Rightarrow> bool" where
  "no_double (a # b # cs) = (\<not> (a = CHR ''-'' \<and> b = CHR ''-'') \<and> no_double (b # cs))"
| "no_double _ = True"

text \<open>Registries and pages, for the examples.\<close>

definition anna_registered :: scraper where
  "anna_registered =
     \<lparr>visited_urls = {},
      persons = [(''http://leuphana.de/resource/person/anna-schmidt'',
                  new_person ''http://leuphana.de/resource/person/anna-schmidt'' ''Anna Schmidt'')],
      organizations = [], chairs = [], hiwi_positions = []\<rparr>"

definition prof_anna_registered :: scraper where
  "prof_anna_registered =
     \<lparr>visited_urls = {},
      persons = [(''http://leuphana.de/resource/person/prof-dr-anna-schmidt'',
                  new_person ''http://leuphana.de/resource/person/prof-dr-anna-schmidt''
                    ''Prof. Dr. Anna Schmidt'')],
      organizations = [], chairs = [], hiwi_positions = []\<rparr>"

definition prof_anna_link :: list_link where
  "prof_anna_link =
     \<lparr>link_href = ''/staff/anna-schmidt.html'',
      link_person_url = ''https://www.leuphana.de/staff/anna-schmidt.html'',
      link_allowed = True, link_text = ''Prof. Dr. Anna Schmidt'', link_mailto = None\<rparr>"





section \<open>Properties\<close>

subsection \<open>Substrings\<close>

lemma py_in_sublist: "py_in sub s \<longleftrightarrow> sublist sub s"
  by (induction s) (auto simp: sublist_Cons_right)

lemma py_in_trans: "py_in a b \<Longrightarrow> py_in b c \<Longrightarrow> py_in a c"
  unfolding py_in_sublist by (rule sublist_order.order_trans)

lemma honorar_in_honorary: "py_in ''honorar'' ''honorary''"
  by simp

subsection \<open>Runs and trimming\<close>

lemma sub_runs_all:
  "list_all P ws \<Longrightarrow> ws \<noteq> [] \<Longrightarrow> ys = [] \<or> \<not> P (hd ys) \<Longrightarrow> sub_runs P r (ws @ ys) = r # sub_runs P r ys"
proof -
  assume a: "list_all P ws" "ws \<noteq> []" "ys = [] \<or> \<not> P (hd ys)"
  then obtain w ws' where ws: "ws = w # ws'" by (cases ws) auto
  have "\<And>x. x \<in> set ws' \<Longrightarrow> P x"
    using a(1) ws by (simp add: list_all_iff)
  then have "dropWhile P (ws' @ ys) = dropWhile P ys"
    by (rule dropWhile_append2)
  also have "\<dots> = ys" using a(3) by (cases ys) auto
  finally show ?thesis using a(1) ws by simp
qed

lemma sub_runs_hd:
  "xs \<noteq> [] \<Longrightarrow> \<not> P (hd xs) \<Longrightarrow> sub_runs P r xs \<noteq> [] \<and> hd (sub_runs P r xs) = hd xs"
  by (cases xs) auto

lemma sub_runs_last:
  "xs \<noteq> [] \<Longrightarrow> \<not> P (last xs) \<Longrightarrow> last (sub_runs P r xs) = last xs"
proof (induction P r xs rule: sub_runs.induct)
  case (1 P r)
  then show ?case by simp
next
  case (2 P r c cs)
  show ?case
  proof (cases "P c")
    case True
    then have cs: "cs \<noteq> []" using 2(4) by auto
    then have l: "\<not> P (last cs)" using 2(4) by simp
    then have ex: "\<exists>x\<in>set cs. \<not> P x" using cs last_in_set by blast
    then have d: "dropWhile P cs \<noteq> []" by (simp add: dropWhile_eq_Nil_conv)
    have ld: "last (dropWhile P cs) = last cs"
      using d by (metis last_appendR takeWhile_dropWhile_id)
    have "last (sub_runs P r (dropWhile P cs)) = last (dropWhile P cs)"
      using 2(1)[OF True d] l ld by simp
    moreover have "sub_runs P r (dropWhile P cs) \<noteq> []"
      using d by (cases "dropWhile P cs") auto
    ultimately show ?thesis using True ld cs by simp
  next
    case False
    show ?thesis
    proof (cases "cs = []")
      case True
      then show ?thesis using False by simp
    next
      case F2: False
      then have "last (sub_runs P r cs) = last cs" using 2(2)[OF False F2] 2(4) by simp
      moreover have "sub_runs P r cs \<noteq> []" using F2 by (cases cs) auto
      ultimately show ?thesis using False F2 by simp
    qed
  qed
qed

lemma sub_runs_snoc:
  "xs \<noteq> [] \<Longrightarrow> \<not> P (last xs) \<Longrightarrow> list_all P ws \<Longrightarrow> ws \<noteq> []
     \<Longrightarrow> sub_runs P r (xs @ ws) = sub_runs P r xs @ [r]"
proof (induction P r xs rule: sub_runs.induct)
  case (1 P r)
  then show ?case by simp
next
  case (2 P r c cs)
  have wsr: "sub_runs P r ws = [r]"
    using sub_runs_all[of P ws "[]" r] 2(5,6) by simp
  show ?case
  proof (cases "P c")
    case True
    then have cs: "cs \<noteq> []" using 2(4) by auto
    then have l: "\<not> P (last cs)" using 2(4) by simp
    then have ex: "\<exists>x\<in>set cs. \<not> P x" using cs last_in_set by blast
    then have d: "dropWhile P cs \<noteq> []" by (simp add: dropWhile_eq_Nil_conv)
    have ld: "last (dropWhile P cs) = last cs"
      using d by (metis last_appendR takeWhile_dropWhile_id)
    have da: "dropWhile P (cs @ ws) = dropWhile P cs @ ws"
      using ex by (metis dropWhile_append1)
    have "sub_runs P r (dropWhile P cs @ ws) = sub_runs P r (dropWhile P cs) @ [r]"
      using 2(1)[OF True d _ 2(5,6)] l ld by simp
    then show ?thesis using True da by simp
  next
    case False
    show ?thesis
    proof (cases "cs = []")
      case True
      then show ?thesis using False wsr by simp
    next
      case F2: False
      then have "sub_runs P r (cs @ ws) = sub_runs P r cs @ [r]"
        using 2(2)[OF False F2 _ 2(5,6)] 2(4) by simp
      then show ?thesis using False by simp
    qed
  qed
qed

lemma py_strip_decomp:
  "\<exists>p q. s = p @ py_strip P s @ q \<and> list_all P p \<and> list_all P q"
proof -
  let ?d = "dropWhile P s"
  have 1: "s = takeWhile P s @ ?d" by simp
  have "rev ?d = takeWhile P (rev ?d) @ dropWhile P (rev ?d)" by simp
  then have 2: "?d = py_strip P s @ rev (takeWhile P (rev ?d))"
    unfolding py_strip_def by (metis rev_append rev_rev_ident)
  have 3: "list_all P (takeWhile P s)" by (simp add: list_all_iff) (meson set_takeWhileD)
  have 4: "list_all P (rev (takeWhile P (rev ?d)))" by (simp add: list_all_iff) (meson set_takeWhileD)
  from 1 2 have "s = takeWhile P s @ py_strip P s @ rev (takeWhile P (rev ?d))" by simp
  with 3 4 show ?thesis by blast
qed

lemma py_strip_edges:
  "py_strip P s = [] \<or> (\<not> P (hd (py_strip P s)) \<and> \<not> P (last (py_strip P s)))"
proof (cases "py_strip P s = []")
  case True
  then show ?thesis by simp
next
  case False
  let ?d = "dropWhile P s"
  let ?e = "dropWhile P (rev ?d)"
  have e: "?e \<noteq> []" using False by (simp add: py_strip_def)
  then have he: "\<not> P (hd ?e)" by (rule hd_dropWhile)
  have d: "?d \<noteq> []" using e by (metis dropWhile.simps(1) rev.simps(1))
  then have hd: "\<not> P (hd ?d)" by (rule hd_dropWhile)
  have "last ?e = last (rev ?d)" using e by (metis last_appendR takeWhile_dropWhile_id)
  then have "last ?e = hd ?d" using d by (simp add: last_rev)
  then have "hd (py_strip P s) = hd ?d" using e by (simp add: py_strip_def hd_rev)
  moreover have "last (py_strip P s) = hd ?e" using e by (simp add: py_strip_def last_rev)
  ultimately show ?thesis using he hd by simp
qed

lemma py_strip_inner:
  assumes "list_all P p" "list_all P q" "z \<noteq> []" "\<not> P (hd z)" "\<not> P (last z)"
  shows "py_strip P (p @ z @ q) = z"
proof -
  have "\<And>x. x \<in> set p \<Longrightarrow> P x"
    using assms(1) by (simp add: list_all_iff)
  then have "dropWhile P (p @ z @ q) = dropWhile P (z @ q)"
    by (rule dropWhile_append2)
  also have "\<dots> = z @ q"
    using assms(3,4) by (cases z) auto
  finally have 1: "dropWhile P (p @ z @ q) = z @ q" .
  have "\<And>x. x \<in> set (rev q) \<Longrightarrow> P x"
    using assms(2) by (simp add: list_all_iff)
  then have "dropWhile P (rev q @ rev z) = dropWhile P (rev z)"
    by (rule dropWhile_append2)
  also have "\<dots> = rev z" using assms(3,5) by (cases "rev z") (auto simp: last_rev[symmetric] hd_rev)
  finally show ?thesis using 1 by (simp add: py_strip_def)
qed

lemma py_strip_all: "list_all P s \<Longrightarrow> py_strip P s = []"
proof -
  assume "list_all P s"
  then have d: "dropWhile P s = []"
    unfolding list_all_iff dropWhile_eq_Nil_conv .
  show ?thesis unfolding py_strip_def d by simp
qed

lemma slug_trim_commute:
  assumes "\<not> edge_hyphen (py_strip is_space a)"
  shows "py_strip is_hyphen (sub_runs is_hyphen CHR ''-'' (sub_runs is_space CHR ''-'' a))
           = sub_runs is_hyphen CHR ''-'' (sub_runs is_space CHR ''-'' (py_strip is_space a))"
proof -
  let ?b = "py_strip is_space a"
  let ?h = "CHR ''-''"
  obtain p q where a: "a = p @ ?b @ q" and p: "list_all is_space p" and q: "list_all is_space q"
    using py_strip_decomp by blast
  have hy: "is_hyphen ?h" by (simp add: is_hyphen_def)
  show ?thesis
  proof (cases "?b = []")
    case True
    then have all: "list_all is_space a" using a p q by (metis append_Nil list_all_append)
    have "sub_runs is_space ?h a = [] \<or> sub_runs is_space ?h a = [?h]"
      using sub_runs_all[of is_space a "[]" ?h] all by (cases "a = []") auto
    then have "py_strip is_hyphen (sub_runs is_hyphen ?h (sub_runs is_space ?h a)) = []"
      using hy by (auto simp: py_strip_def)
    then show ?thesis using True by simp
  next
    case False
    then have bs: "\<not> is_space (hd ?b)" "\<not> is_space (last ?b)"
      using py_strip_edges[of is_space a] by auto
    have bh: "\<not> is_hyphen (hd ?b)" "\<not> is_hyphen (last ?b)"
      using assms False by (auto simp: edge_hyphen_def is_hyphen_def)
    let ?p' = "if p = [] then [] else [?h]"
    let ?q' = "if q = [] then [] else [?h]"
    let ?y = "sub_runs is_space ?h ?b"
    let ?z = "sub_runs is_hyphen ?h ?y"
    have y: "?y \<noteq> []" "hd ?y = hd ?b" "last ?y = last ?b"
      using sub_runs_hd[of ?b is_space ?h] sub_runs_last[of ?b is_space ?h] False bs by auto
    have z: "?z \<noteq> []" "hd ?z = hd ?b" "last ?z = last ?b"
      using sub_runs_hd[of ?y is_hyphen ?h] sub_runs_last[of ?y is_hyphen ?h] y bh by auto
    have 1: "sub_runs is_space ?h (?b @ q) = ?y @ ?q'"
      using sub_runs_snoc[of ?b is_space q ?h] False bs(2) q by (cases "q = []") auto
    have "sub_runs is_space ?h (p @ ?b @ q) = ?p' @ sub_runs is_space ?h (?b @ q)"
      using sub_runs_all[of is_space p "?b @ q" ?h] p False bs(1) by (cases "p = []") auto
    then have 2: "sub_runs is_space ?h a = ?p' @ ?y @ ?q'"
      using 1 a by simp
    have 3: "sub_runs is_hyphen ?h (?y @ ?q') = ?z @ ?q'"
      using sub_runs_snoc[of ?y is_hyphen "[?h]" ?h] y bh hy by auto
    have "sub_runs is_hyphen ?h (?p' @ ?y @ ?q') = ?p' @ sub_runs is_hyphen ?h (?y @ ?q')"
      using sub_runs_all[of is_hyphen "[?h]" "?y @ ?q'" ?h] y bh hy by auto
    then have 4: "sub_runs is_hyphen ?h (sub_runs is_space ?h a) = ?p' @ ?z @ ?q'"
      using 2 3 by simp
    have "py_strip is_hyphen (?p' @ ?z @ ?q') = ?z"
      using z bh hy by (intro py_strip_inner) auto
    then show ?thesis using 4 by simp
  qed
qed

subsection \<open>URI canonicalizer\<close>

lemma is_az09_word: "is_az09 c \<Longrightarrow> is_word c"
  by (auto simp: is_az09_def is_word_def Let_def)

lemma is_hyphen_eq: "is_hyphen = (\<lambda>c. c = CHR ''-'')"
  by (rule ext) (simp add: is_hyphen_def)

lemma keep_az09_eq: "keep_az09 = (\<lambda>c. is_az09 c \<or> is_space c \<or> c = CHR ''-'')"
  by (rule ext) (simp add: keep_az09_def is_hyphen_def)

lemma filter_keep_agree:
  assumes "list_all (\<lambda>c. is_az09 c \<or> \<not> is_word c) s"
  shows "filter keep_word s = filter keep_az09 s"
proof (rule filter_cong[OF refl])
  fix x assume "x \<in> set s"
  then have "is_az09 x \<or> \<not> is_word x" using assms by (simp add: list_all_iff)
  then show "keep_word x = keep_az09 x"
    using is_az09_word[of x] by (auto simp: keep_word_def keep_az09_def)
qed

lemma canonical_slug_unfold:
  "canonical_slug name
     = py_strip is_hyphen (sub_runs is_hyphen CHR ''-''
         (sub_runs is_space CHR ''-'' (filter keep_az09 (lower name))))"
  by (simp add: canonical_slug_def trim_hyphens_def collapse_hyphens_def
        collapse_whitespace_def strip_outside_def is_hyphen_eq keep_az09_eq)

lemma create_uri_plain:
  assumes "plain_name name"
  shows "create_uri kind name = INSTANCE_NS @ kind @ ''/'' @ canonical_slug name"
proof -
  have f: "filter keep_word (lower name) = filter keep_az09 (lower name)"
    using assms by (simp add: plain_name_def filter_keep_agree)
  have e: "\<not> edge_hyphen (py_strip is_space (filter keep_az09 (lower name)))"
    using assms f by (simp add: plain_name_def)
  show ?thesis
    unfolding create_uri_def Let_def canonical_slug_unfold f slug_trim_commute[OF e]
    by (simp add: INSTANCE_NS_def)
qed

lemma set_sub_runs: "set (sub_runs P r s) \<subseteq> insert r {c \<in> set s. \<not> P c}"
proof (induction P r s rule: sub_runs.induct)
  case (1 P r)
  then show ?case by simp
next
  case (2 P r c cs)
  show ?case
  proof (cases "P c")
    case True
    have "set (dropWhile P cs) \<subseteq> set cs" by (rule set_dropWhileD[THEN subsetI]) 
    then show ?thesis using 2(1)[OF True] True by auto
  next
    case False
    then show ?thesis using 2(2)[OF False] by auto
  qed
qed

lemma set_py_strip: "set (py_strip P s) \<subseteq> set s"
  unfolding py_strip_def by (metis set_dropWhileD set_rev subsetI)

lemma no_double_Cons:
  "no_double (a # xs) = (xs = [] \<or> (\<not> (a = CHR ''-'' \<and> hd xs = CHR ''-'') \<and> no_double xs))"
  by (cases xs) simp_all

lemma no_double_sub_runs_gen:
  "P = is_hyphen \<Longrightarrow> r = CHR ''-'' \<Longrightarrow> no_double (sub_runs P r s)"
proof (induction P r s rule: sub_runs.induct)
  case (1 P r)
  then show ?case by simp
next
  case (2 P r c cs)
  show ?case
  proof (cases "P c")
    case True
    let ?d = "dropWhile P cs"
    have ih: "no_double (sub_runs P r ?d)" using 2(1)[OF True 2(3) 2(4)] .
    have "sub_runs P r ?d = [] \<or> hd (sub_runs P r ?d) \<noteq> CHR ''-''"
    proof (cases "?d = []")
      case d0: True
      show ?thesis unfolding d0 by simp
    next
      case False
      then have np: "\<not> P (hd ?d)" by (rule hd_dropWhile)
      then have "hd (sub_runs P r ?d) = hd ?d" using sub_runs_hd[of ?d P r] False np by simp
      moreover have "hd ?d \<noteq> CHR ''-''" using np 2(3) by (simp add: is_hyphen_def)
      ultimately show ?thesis by simp
    qed
    moreover have "sub_runs P r (c # cs) = r # sub_runs P r ?d" using True by simp
    ultimately show ?thesis using ih by (simp only: no_double_Cons) blast
  next
    case False
    have ih: "no_double (sub_runs P r cs)" using 2(2)[OF False 2(3) 2(4)] .
    have c: "c \<noteq> CHR ''-''" using False 2(3) by (simp add: is_hyphen_def)
    have "sub_runs P r (c # cs) = c # sub_runs P r cs" using False by simp
    then show ?thesis using ih c by (simp only: no_double_Cons) blast
  qed
qed

lemma no_double_sub_runs: "no_double (sub_runs is_hyphen CHR ''-'' s)"
  by (rule no_double_sub_runs_gen) simp_all

lemma lower_char_idem: "lower_char (lower_char c) = lower_char c"
  by (auto simp: lower_char_def Let_def)

lemmas char_class_defs =
  is_space_def is_word_def is_az09_def is_hyphen_def keep_word_def keep_az09_def
lemmas slug_defs =
  canonical_slug_def trim_hyphens_def collapse_hyphens_def collapse_whitespace_def
  strip_outside_def py_strip_def

lemma create_uri_slug_shape:
  "\<exists>slug. create_uri kind name = INSTANCE_NS @ kind @ ''/'' @ slug
     \<and> list_all (\<lambda>c. is_hyphen c \<or> (is_word c \<and> lower_char c = c)) slug
     \<and> list_all (\<lambda>c. \<not> is_space c) slug \<and> no_double slug"
proof -
  let ?a = "filter keep_word (lower name)"
  let ?b = "py_strip is_space ?a"
  let ?y = "sub_runs is_space CHR ''-'' ?b"
  let ?z = "sub_runs is_hyphen CHR ''-'' ?y"
  have hy: "is_hyphen CHR ''-''" "\<not> is_space CHR ''-''"
    by (simp_all add: is_hyphen_def is_space_def)
  have a: "\<And>c. c \<in> set ?a \<Longrightarrow> keep_word c \<and> lower_char c = c"
    by (auto simp: lower_def lower_char_idem)
  have y: "\<And>c. c \<in> set ?y \<Longrightarrow> c = CHR ''-'' \<or> (c \<in> set ?a \<and> \<not> is_space c)"
    using set_sub_runs[of is_space "CHR ''-''" ?b] set_py_strip[of is_space ?a] by auto
  have z: "\<And>c. c \<in> set ?z \<Longrightarrow> c = CHR ''-'' \<or> (c \<in> set ?a \<and> \<not> is_space c)"
    using set_sub_runs[of is_hyphen "CHR ''-''" ?y] y by auto
  have 1: "list_all (\<lambda>c. is_hyphen c \<or> (is_word c \<and> lower_char c = c)) ?z"
    unfolding list_all_iff using z a hy by (auto simp: keep_word_def)
  have 2: "list_all (\<lambda>c. \<not> is_space c) ?z"
    unfolding list_all_iff using z hy by auto
  have 3: "no_double ?z" by (rule no_double_sub_runs)
  have "create_uri kind name = INSTANCE_NS @ kind @ ''/'' @ ?z"
    by (simp add: create_uri_def INSTANCE_NS_def)
  with 1 2 3 show ?thesis by blast
qed

lemma create_uri_empty: "create_uri kind [] = INSTANCE_NS @ kind @ ''/''"
  by (simp add: create_uri_def INSTANCE_NS_def lower_def py_strip_def)

lemma name_to_uri_canonical:
  "name_to_uri kind name = URIRef (INSTANCE_NS @ kind @ ''/'' @ canonical_slug name)"
  by (simp add: name_to_uri_def canonical_slug_unfold)

text \<open>
  Claim C2. The slug of the specification is the one \<open>name_to_uri\<close> computes, for every
  name (\<open>name_to_uri_canonical\<close>), and \<open>create_uri\<close> computes it too on plain names
  (\<open>create_uri_plain\<close>). On other names \<open>create_uri\<close> does not: it deletes what is
  outside the class of word characters, whitespace and hyphen, so an underscore stays in
  the slug, and it trims whitespace but no hyphen, so a hyphen at either end stays too.
  An empty name does yield an empty slug.
\<close>

theorem create_uri_not_canonical:
  "create_uri ''person'' ''a_b'' = ''http://leuphana.de/resource/person/a_b''
   \<and> canonical_slug ''a_b'' = ''ab''
   \<and> create_uri ''person'' ''a_b'' \<noteq> INSTANCE_NS @ ''person'' @ ''/'' @ canonical_slug ''a_b''
   \<and> create_uri ''person'' ''-a'' = ''http://leuphana.de/resource/person/-a''
   \<and> canonical_slug ''-a'' = ''a''
   \<and> create_uri ''person'' [] = ''http://leuphana.de/resource/person/''"
proof -
  have l: "lower ''a_b'' = ''a_b''" "lower ''-a'' = ''-a''" "lower [] = []" by code_simp+
  show ?thesis
    by (simp add: create_uri_def slug_defs l char_class_defs INSTANCE_NS_def)
qed

text \<open>
  Claim C9. The two slug functions are meant to agree: the graph builder links a person to
  \<open>name_to_uri "school"\<close> and a position to \<open>name_to_uri "institute"\<close> of a name
  whose node the scraper named with \<open>create_uri\<close>. They differ on a name with an umlaut
  (Institut f\<open>\<dots>\<close>r \<open>\<dots>\<close>kologie, code points 252 and 214), with an underscore, or with
  a hyphen at either end.
\<close>

theorem create_uri_name_to_uri_differ:
  "create_uri ''institute'' (''Institut f'' @ [CHR 0xFC] @ ''r '' @ [CHR 0xD6] @ ''kologie'')
     = ''http://leuphana.de/resource/institute/institut-f'' @ [CHR 0xFC] @ ''r-'' @ [CHR 0xF6] @ ''kologie''
   \<and> name_to_uri ''institute'' (''Institut f'' @ [CHR 0xFC] @ ''r '' @ [CHR 0xD6] @ ''kologie'')
     = URIRef ''http://leuphana.de/resource/institute/institut-fr-kologie''
   \<and> create_uri ''institute'' ''R_D Lab'' = ''http://leuphana.de/resource/institute/r_d-lab''
   \<and> name_to_uri ''institute'' ''R_D Lab'' = URIRef ''http://leuphana.de/resource/institute/rd-lab''
   \<and> create_uri ''institute'' ''- Ecology -'' = ''http://leuphana.de/resource/institute/-ecology-''
   \<and> name_to_uri ''institute'' ''- Ecology -'' = URIRef ''http://leuphana.de/resource/institute/ecology''"
proof -
  have l: "lower (''Institut f'' @ [CHR 0xFC] @ ''r '' @ [CHR 0xD6] @ ''kologie'')
             = ''institut f'' @ [CHR 0xFC] @ ''r '' @ [CHR 0xF6] @ ''kologie''"
    "lower ''R_D Lab'' = ''r_d lab''" "lower ''- Ecology -'' = ''- ecology -''"
    by code_simp+
  show ?thesis
    unfolding create_uri_def name_to_uri_def Let_def l
    by (simp add: py_strip_def char_class_defs INSTANCE_NS_def)
qed

subsection \<open>Name parser\<close>

lemma strip_titles_all:
  "list_all is_title_token ps \<Longrightarrow> strip_titles acc ps = (acc @ ps, [])"
  by (induction ps arbitrary: acc) auto

text \<open>
  Claim C10, the claim as stated fails: a full name without any token (the empty string,
  or whitespace only) has all of its tokens consumed by the loop, and the title returned
  is \<^verbatim>\<open>None\<close>, not the joined stripped tokens (which would be the empty string):
  the source guards the join with \<^verbatim>\<open>if title_parts else None\<close>.
\<close>

theorem extract_name_parts_no_token_counterexample:
  "list_all is_title_token (split [])
   \<and> extract_name_parts [] = (None, [], None)
   \<and> extract_name_parts [] \<noteq> (None, [], Some (join '' '' (split [])))
   \<and> list_all is_title_token (split ''  '')
   \<and> extract_name_parts ''  '' = (None, ''  '', None)
   \<and> extract_name_parts ''  '' \<noteq> (None, ''  '', Some (join '' '' (split ''  '')))"
  by (simp add: extract_name_parts_def split_def is_space_def)

text \<open>
  Claim C10, amended. For every full name whose whitespace tokens are all consumed by the
  title-stripping loop (every token equals or starts with a title, as in "Prof. Dr."),
  \<open>extract_name_parts\<close> returns no first name and the whole original input string as the
  last name, title tokens included; the title is the stripped tokens joined by single
  spaces when the name has at least one token, and absent when it has none.
\<close>

theorem extract_name_parts_all_titles:
  assumes "list_all is_title_token (split full_name)"
  shows "extract_name_parts full_name
           = (None, full_name,
              if split full_name = [] then None else Some (join '' '' (split full_name)))"
  using assms by (simp add: extract_name_parts_def strip_titles_all)

theorem extract_name_parts_all_titles_witness:
  "list_all is_title_token (split ''Prof. Dr.'')
   \<and> extract_name_parts ''Prof. Dr.'' = (None, ''Prof. Dr.'', Some ''Prof. Dr.'')"
proof -
  have s: "split ''Prof. Dr.'' = [''Prof.'', ''Dr.'']"
    by (simp add: split_def is_space_def)
  have t: "list_all is_title_token [''Prof.'', ''Dr.'']"
    by (simp add: is_title_token_def titles_def)
  show ?thesis
    using extract_name_parts_all_titles [of "''Prof. Dr.''"] s t by simp
qed

subsection \<open>Person category classifier\<close>

lemma case_if_Some:
  "(case (if b then Some x else y) of Some c \<Rightarrow> c | None \<Rightarrow> d)
     = (if b then x else (case y of Some c \<Rightarrow> c | None \<Rightarrow> d))"
  by simp

lemma determine_person_category_classify_spec:
  "determine_person_category text url title
     = classify_spec (lower (text @ '' '' @ url @ '' '' @ title))"
  by (simp only: determine_person_category_def classify_spec_def category_rules_def Let_def
        first_match.simps case_if_Some list_ex_Nil_iff list_ex_Cons_iff simp_thms option.case
        cong del: if_weak_cong)

lemma determine_person_category_junior:
  "junior_marker (lower (text @ '' '' @ url @ '' '' @ title))
     \<Longrightarrow> determine_person_category text url title = ''JuniorProfessor''"
  by (simp add: determine_person_category_def junior_marker_def Let_def)

lemma determine_person_category_honorary:
  assumes "\<not> junior_marker (lower (text @ '' '' @ url @ '' '' @ title))"
    and "py_in ''honorary'' (lower (text @ '' '' @ url @ '' '' @ title))"
  shows "determine_person_category text url title = ''HonoraryProfessor''"
proof -
  let ?c = "lower (text @ '' '' @ url @ '' '' @ title)"
  have j: "\<not> (py_in ''juniorprof'' ?c \<or> py_in ''junior professor'' ?c
              \<or> py_in ''jun.-prof'' ?c)"
    using assms(1) by (simp add: junior_marker_def)
  have h: "py_in ''honorar'' ?c \<or> py_in ''honorary'' ?c"
    using assms(2) by simp
  show ?thesis
    unfolding determine_person_category_def Let_def
    by (simp only: j h if_False if_True)
qed

text \<open>
  Claim C1, the claim as stated fails, twice. A combined text can hold both "honorary" and
  "professor" and still be classified JuniorProfessor, because the junior-professor rule
  stands before the honorary rule in the decision list. And the list is not evaluated on
  the plain concatenation of the three inputs: the code joins them with single spaces, so
  a marker never spans two inputs ("post" followed by "doc" is no "postdoc"), while a
  marker with a space can ("visiting" followed by "prof" is "visiting prof").
\<close>

theorem determine_person_category_honorary_counterexample:
  "py_in ''honorary'' (lower (''Honorary Junior Professor'' @ '' '' @ [] @ '' '' @ []))
   \<and> py_in ''professor'' (lower (''Honorary Junior Professor'' @ '' '' @ [] @ '' '' @ []))
   \<and> determine_person_category ''Honorary Junior Professor'' [] [] = ''JuniorProfessor''
   \<and> determine_person_category ''Honorary Junior Professor'' [] [] \<noteq> ''HonoraryProfessor''
   \<and> classify_spec (lower (''post'' @ ''doc'' @ [])) = ''PostDoc''
   \<and> determine_person_category ''post'' ''doc'' [] = ''AcademicStaff''
   \<and> classify_spec (lower (''visiting'' @ ''prof'' @ [])) = ''AcademicStaff''
   \<and> determine_person_category ''visiting'' ''prof'' [] = ''VisitingProfessor''"
proof -
  have l: "lower ''postdoc'' = ''postdoc''" "lower ''post doc '' = ''post doc ''"
    "lower ''visitingprof'' = ''visitingprof''" "lower ''visiting prof '' = ''visiting prof ''"
    "lower ''Honorary Junior Professor  '' = ''honorary junior professor  ''"
    by code_simp+
  show ?thesis
    by (simp add: determine_person_category_def classify_spec_def category_rules_def
          ausserplanmaessig_def l)
qed

text \<open>
  Claim C1, amended. For every input triple, \<open>determine_person_category\<close> is the
  specification's decision list evaluated top to bottom on the case-folded text made of
  the three inputs joined by single spaces (\<open>text + " " + url + " " + title\<close>, folded by
  \<^verbatim>\<open>str.lower\<close>), first matching rule first, in the order JuniorProfessor,
  HonoraryProfessor, EmeritusProfessor, VisitingProfessor, AdjunctProfessor, Professor,
  PostDoc, PhDStudent, Lecturer, ResearchAssistant, VisitingScientist, StudentAssistant,
  then PostDoc for a doctoral-title marker without a professor marker, then
  AcademicStaff. In particular a combined text with a junior-professor marker yields
  JuniorProfessor, and a combined text that contains "honorary" and no junior-professor
  marker yields HonoraryProfessor and never Professor.
\<close>

theorem determine_person_category_ordered:
  "determine_person_category text url title
     = classify_spec (lower (text @ '' '' @ url @ '' '' @ title))
   \<and> (junior_marker (lower (text @ '' '' @ url @ '' '' @ title))
        \<longrightarrow> determine_person_category text url title = ''JuniorProfessor'')
   \<and> (\<not> junior_marker (lower (text @ '' '' @ url @ '' '' @ title))
        \<and> py_in ''honorary'' (lower (text @ '' '' @ url @ '' '' @ title))
        \<longrightarrow> determine_person_category text url title = ''HonoraryProfessor'')"
  using determine_person_category_classify_spec determine_person_category_junior
    determine_person_category_honorary by blast

theorem determine_person_category_ordered_witness:
  "\<not> junior_marker (lower (''Honorary Professor'' @ '' '' @ ''http://x'' @ '' '' @ ''Prof.''))
   \<and> py_in ''honorary'' (lower (''Honorary Professor'' @ '' '' @ ''http://x'' @ '' '' @ ''Prof.''))
   \<and> py_in ''professor'' (lower (''Honorary Professor'' @ '' '' @ ''http://x'' @ '' '' @ ''Prof.''))
   \<and> determine_person_category ''Honorary Professor'' ''http://x'' ''Prof.''
        = ''HonoraryProfessor''
   \<and> junior_marker (lower (''Jun.-Prof. Dr. Eva Beispiel'' @ '' '' @ [] @ '' '' @ ''Jun.-Prof. Dr.''))
   \<and> determine_person_category ''Jun.-Prof. Dr. Eva Beispiel'' [] ''Jun.-Prof. Dr.''
        = ''JuniorProfessor''"
proof -
  have a: "\<not> junior_marker (lower (''Honorary Professor'' @ '' '' @ ''http://x'' @ '' '' @ ''Prof.''))"
    by code_simp
  have b: "py_in ''honorary'' (lower (''Honorary Professor'' @ '' '' @ ''http://x'' @ '' '' @ ''Prof.''))"
    by code_simp
  have c: "py_in ''professor'' (lower (''Honorary Professor'' @ '' '' @ ''http://x'' @ '' '' @ ''Prof.''))"
    by code_simp
  have d: "junior_marker (lower (''Jun.-Prof. Dr. Eva Beispiel'' @ '' '' @ [] @ '' '' @ ''Jun.-Prof. Dr.''))"
    by code_simp
  show ?thesis
    using a b c d
      determine_person_category_ordered [of "''Honorary Professor''" "''http://x''" "''Prof.''"]
      determine_person_category_ordered [of "''Jun.-Prof. Dr. Eva Beispiel''" "[]" "''Jun.-Prof. Dr.''"]
    by blast
qed

subsection \<open>Graph builder\<close>

lemma set_add [simp]: "set (add t g) = insert t (set g)"
  by (auto simp: add_def)

lemma sub_add: "set g \<subseteq> set h \<Longrightarrow> set g \<subseteq> set (add t h)"
  by auto

lemma sub_when: "set g \<subseteq> set h \<Longrightarrow> (\<And>k. set k \<subseteq> set (f k)) \<Longrightarrow> set g \<subseteq> set (when b f h)"
  by (auto simp: when_def)

lemma sub_when_str:
  "set g \<subseteq> set h \<Longrightarrow> (\<And>v k. set k \<subseteq> set (f v k)) \<Longrightarrow> set g \<subseteq> set (when_str x f h)"
  by (auto simp: when_str_def split: option.splits)

lemma sub_fold:
  "set g \<subseteq> set h \<Longrightarrow> (\<And>x k. set k \<subseteq> set (f x k)) \<Longrightarrow> set g \<subseteq> set (fold f xs h)"
proof (induction xs arbitrary: h)
  case Nil
  then show ?case by simp
next
  case (Cons x xs)
  have "set g \<subseteq> set (f x h)" using Cons.prems by blast
  then show ?case using Cons.IH Cons.prems(2) by simp
qed

lemmas grow_rules = sub_add sub_when sub_when_str sub_fold subset_refl

lemma add_course_grows: "set g \<subseteq> set (add_course c g)"
  unfolding add_course_def Let_def
  by (cases "course_credit_points c") (simp_all, (intro grow_rules)+)

lemma mem_add_here: "t \<in> set (add t h)"
  by simp

lemma mem_add: "t \<in> set h \<Longrightarrow> t \<in> set (add t' h)"
  by simp

lemma mem_when_str:
  "t \<in> set h \<Longrightarrow> (\<And>v k. set k \<subseteq> set (f v k)) \<Longrightarrow> t \<in> set (when_str x f h)"
  using sub_when_str[of h h f x] by blast

lemma mem_fold:
  "t \<in> set h \<Longrightarrow> (\<And>x k. set k \<subseteq> set (f x k)) \<Longrightarrow> t \<in> set (fold f xs h)"
  using sub_fold[of h h f xs] by blast

lemma add_course_fallback_triples:
  assumes "\<not> truthy (course_part_of_program c)"
  shows "(URIRef (course_uri c), LEUPH ''offeredBy'', college_uri) \<in> set (add_course c g)
       \<and> (college_uri, LEUPH ''offers'', URIRef (course_uri c)) \<in> set (add_course c g)"
proof -
  have w: "\<And>f h. when (\<not> truthy (course_part_of_program c)) f h = f h"
    using assms by (simp add: when_def)
  have 1: "(URIRef (course_uri c), LEUPH ''offeredBy'', college_uri) \<in> set (add_course c g)"
    unfolding add_course_def Let_def w
    by (rule mem_when_str, rule mem_fold, rule mem_add, rule mem_add_here, (intro grow_rules)+)
  have 2: "(college_uri, LEUPH ''offers'', URIRef (course_uri c)) \<in> set (add_course c g)"
    unfolding add_course_def Let_def w
    by (rule mem_when_str, rule mem_fold, rule mem_add_here, (intro grow_rules)+)
  from 1 2 show ?thesis by simp
qed

lemma create_unit_grows: "set g \<subseteq> set (create_unit u g)"
  by (cases u) (auto simp: create_unit_def Let_def)

lemma create_unit_typed:
  "(URIRef u, RDF_type, LEUPH ''School'') \<in> set (create_unit (u, n, d) g)"
  by (auto simp: create_unit_def Let_def)

lemma core_units_college:
  "(college_uri, RDF_type, LEUPH ''School'') \<in> set (create_core_academic_units g)"
proof -
  have "(college_uri, RDF_type, LEUPH ''School'')
          \<in> set (create_unit (INSTANCE_NS @ ''school/college'', ''College'',
                   ''Leuphana College offers undergraduate (Bachelor) programs'') g)"
    unfolding college_uri_def by (rule create_unit_typed)
  then show ?thesis
    unfolding create_core_academic_units_def core_units_def
    using create_unit_grows by (simp only: fold_simps) blast
qed

text \<open>
  Claim C3. For every course record whose \<open>part_of_program\<close> is absent (\<^verbatim>\<open>None\<close>, or
  the empty string, which the code treats alike), \<open>add_course\<close> puts into the graph the
  \<open>offeredBy\<close> triple from the course to the College fallback unit, instance namespace
  school/college, and the inverse \<open>offers\<close> triple. The core-academic-units step leaves
  the College typed as a School, and \<open>add_course\<close> keeps every triple of the graph it is
  given, so the course's edge ends at a node of the output graph.
\<close>

theorem add_course_college_fallback:
  assumes "\<not> truthy (course_part_of_program c)"
  shows "(URIRef (course_uri c), LEUPH ''offeredBy'', college_uri) \<in> set (add_course c g)
       \<and> (college_uri, LEUPH ''offers'', URIRef (course_uri c)) \<in> set (add_course c g)
       \<and> college_uri = URIRef (INSTANCE_NS @ ''school/college'')
       \<and> (college_uri, RDF_type, LEUPH ''School'') \<in> set (create_core_academic_units g0)
       \<and> (set (create_core_academic_units g0) \<subseteq> set g
            \<longrightarrow> (college_uri, RDF_type, LEUPH ''School'') \<in> set (add_course c g))"
  using add_course_fallback_triples[OF assms, of g] core_units_college[of g0]
    add_course_grows[of g c]
  by (auto simp: college_uri_def)

theorem add_course_college_fallback_witness:
  "\<not> truthy (course_part_of_program statistics_course)
   \<and> (URIRef ''http://leuphana.de/resource/course/statistics'', LEUPH ''offeredBy'', college_uri)
        \<in> set (add_course statistics_course (create_core_academic_units []))
   \<and> (college_uri, LEUPH ''offers'', URIRef ''http://leuphana.de/resource/course/statistics'')
        \<in> set (add_course statistics_course (create_core_academic_units []))
   \<and> (college_uri, RDF_type, LEUPH ''School'')
        \<in> set (add_course statistics_course (create_core_academic_units []))"
proof -
  have t: "\<not> truthy (course_part_of_program statistics_course)"
    by (simp add: statistics_course_def truthy_def)
  have u: "course_uri statistics_course = ''http://leuphana.de/resource/course/statistics''"
    by (simp add: statistics_course_def)
  show ?thesis
    using t add_course_college_fallback[OF t, of "create_core_academic_units []" "[]"]
    unfolding u by blast
qed

lemma name_to_uri_ecology:
  "name_to_uri ''institute'' ''Institute of Ecology''
     = URIRef ''http://leuphana.de/resource/institute/institute-of-ecology''"
proof -
  have l: "lower ''Institute of Ecology'' = ''institute of ecology''" by code_simp
  show ?thesis
    unfolding name_to_uri_def Let_def l
    by (simp add: py_strip_def char_class_defs INSTANCE_NS_def)
qed

lemmas ns_defs = LEUPH_def RDF_type_def RDFS_label_def SCHEMA_def XSD_def
  university_uri_def college_uri_def INSTANCE_NS_def

text \<open>
  Claim C4. The builder emits the forward triple alone for the department link of a Hiwi
  position (\<open>postedBy\<close>) and for the principal-investigator link of a research project
  (\<open>worksOn\<close>): the graphs below are all that \<open>add_hiwi_position\<close> and
  \<open>add_research_project\<close> build from an empty graph, and no triple leads back from the
  institute to the position, or from the project to the person. The other link of the
  project (\<open>conductedBy\<close> with \<open>conducts\<close>) does come in both directions.
\<close>

theorem inverse_missing_postedBy_worksOn:
  "add_hiwi_position norm_date tutor_position []
     = [(URIRef ''http://leuphana.de/resource/hiwi-position/tutor-statistics'', RDF_type,
         LEUPH ''HiwiPosition''),
        (URIRef ''http://leuphana.de/resource/hiwi-position/tutor-statistics'', LEUPH ''name'',
         Literal ''Tutor Statistics'' (Some ''en'') None),
        (URIRef ''http://leuphana.de/resource/hiwi-position/tutor-statistics'', RDFS_label,
         Literal ''Tutor Statistics'' (Some ''en'') None),
        (URIRef ''http://leuphana.de/resource/hiwi-position/tutor-statistics'', LEUPH ''postedBy'',
         URIRef ''http://leuphana.de/resource/institute/institute-of-ecology'')]
   \<and> add_research_project norm_date soil_project []
     = Inr [(URIRef ''http://leuphana.de/resource/research-project/soil'', RDF_type,
             LEUPH ''ResearchProject''),
            (URIRef ''http://leuphana.de/resource/research-project/soil'', LEUPH ''name'',
             Literal ''Soil'' (Some ''en'') None),
            (URIRef ''http://leuphana.de/resource/research-project/soil'', RDFS_label,
             Literal ''Soil'' (Some ''en'') None),
            (URIRef ''http://leuphana.de/resource/research-project/soil'', LEUPH ''conductedBy'',
             university_uri),
            (university_uri, LEUPH ''conducts'',
             URIRef ''http://leuphana.de/resource/research-project/soil''),
            (URIRef ''http://leuphana.de/resource/person/anna-schmidt'', LEUPH ''worksOn'',
             URIRef ''http://leuphana.de/resource/research-project/soil'')]"
  by (simp add: add_hiwi_position_def add_research_project_def tutor_position_def
        soil_project_def Let_def when_str_def truthy_def add_def name_to_uri_ecology ns_defs)

subsection \<open>Relationship resolver\<close>

lemma split_on_nonempty: "split_on sep s \<noteq> []"
  by (induction s) (auto split: list.splits)

lemma neg_index_last: "xs \<noteq> [] \<Longrightarrow> neg_index xs 1 = Inr (last xs)"
  by (cases xs rule: rev_cases) (simp_all add: neg_index_def)

lemma neg_index_second:
  "length xs \<ge> 2 \<Longrightarrow> neg_index xs 2 = Inr (xs ! (length xs - 2))"
  by (simp add: neg_index_def)

lemma suffix_py_in: "suffix a b \<Longrightarrow> py_in a b"
  unfolding py_in_sublist by (rule suffix_imp_sublist)

lemma scan_candidates_find:
  "scan_candidates g seg cs = find (candidate_matches g seg) cs"
  by (induction cs) (auto simp: candidate_matches_def has_abbreviation_def Let_def suffix_py_in)

lemma resolve_org_uri_find:
  "resolve_org_uri g uri_string
     = Inr (if has_sp g (URIRef uri_string) RDF_type then URIRef uri_string
            else case find (candidate_matches g (trailing_segment uri_string))
                        (hinted_candidates g uri_string)
                 of Some c \<Rightarrow> c | None \<Rightarrow> university_uri)"
proof -
  let ?parts = "split_on CHR ''/'' (py_rstrip (\<lambda>c. c = CHR ''/'') uri_string)"
  have 1: "(if ?parts \<noteq> [] then map_sum id lower (neg_index ?parts 1) else Inr [])
             = Inr (trailing_segment uri_string)"
    using split_on_nonempty[of "CHR ''/''" "py_rstrip (\<lambda>c. c = CHR ''/'') uri_string"]
      neg_index_last[of ?parts]
    by (simp add: trailing_segment_def)
  have 2: "(if length ?parts \<ge> 2 then neg_index ?parts 2 else Inr [])
             = Inr (kind_segment uri_string)"
    using neg_index_second[of ?parts] by (simp add: kind_segment_def Let_def)
  show ?thesis
    unfolding resolve_org_uri_def Let_def 1 2
    by (simp add: scan_candidates_find hinted_candidates_def split: option.splits)
qed

lemma subjects_typed: "c \<in> set (subjects g RDF_type cls) \<Longrightarrow> has_sp g c RDF_type"
  by (auto simp: subjects_def has_sp_def list_ex_iff)

lemma hinted_typed: "c \<in> set (hinted_candidates g s) \<Longrightarrow> has_sp g c RDF_type"
  by (auto simp: hinted_candidates_def subjects_typed split: option.splits)

lemma find_None_ex: "find P xs = None \<longleftrightarrow> \<not> list_ex P xs"
  by (auto simp: find_None_iff list_ex_iff)

text \<open>
  Claim C5. The resolver is total: the two list reads that could raise an
  \<^verbatim>\<open>IndexError\<close> are guarded, so for every reference string and every graph the
  result is a target (\<open>Inr\<close>), which is the University root or a subject that has a
  type in the graph. Whenever the reference is not itself typed in the graph and no
  candidate of the hinted class matches by a substring of its URI or by its stored
  abbreviation, the target is the University root, instance namespace
  university/leuphana.
\<close>

theorem resolve_org_uri_total:
  "\<exists>t. resolve_org_uri g uri_string = Inr t
     \<and> (t = university_uri \<or> has_sp g t RDF_type)
     \<and> (\<not> has_sp g (URIRef uri_string) RDF_type
          \<and> \<not> list_ex (candidate_matches g (trailing_segment uri_string))
                  (hinted_candidates g uri_string)
          \<longrightarrow> t = university_uri)"
proof (cases "has_sp g (URIRef uri_string) RDF_type")
  case True
  then show ?thesis by (simp add: resolve_org_uri_find)
next
  case False
  show ?thesis
  proof (cases "find (candidate_matches g (trailing_segment uri_string))
                  (hinted_candidates g uri_string)")
    case None
    then show ?thesis using False by (simp add: resolve_org_uri_find)
  next
    case (Some c)
    then have "c \<in> set (hinted_candidates g uri_string)"
      and "candidate_matches g (trailing_segment uri_string) c"
      by (auto simp: find_Some_iff)
    then show ?thesis
      using False Some hinted_typed[of c g uri_string]
      by (auto simp: resolve_org_uri_find list_ex_iff)
  qed
qed

lemma segments_imo:
  "trailing_segment ''http://leuphana.de/resource/institute/imo'' = ''imo''"
  "kind_segment ''http://leuphana.de/resource/institute/imo'' = ''institute''"
proof -
  have p: "split_on CHR ''/'' (py_rstrip (\<lambda>c. c = CHR ''/'') ''http://leuphana.de/resource/institute/imo'')
             = [''http:'', '''', ''leuphana.de'', ''resource'', ''institute'', ''imo'']"
    by (simp add: py_rstrip_def)
  have l: "lower ''imo'' = ''imo''" by code_simp
  show "trailing_segment ''http://leuphana.de/resource/institute/imo'' = ''imo''"
    unfolding trailing_segment_def p by (simp add: l)
  show "kind_segment ''http://leuphana.de/resource/institute/imo'' = ''institute''"
    unfolding kind_segment_def p by simp
qed


lemma lower_examples:
  "lower ''http://leuphana.de/resource/institute/institute-of-ecology''
     = ''http://leuphana.de/resource/institute/institute-of-ecology''"
  "lower ''http://leuphana.de/resource/institute/ie'' = ''http://leuphana.de/resource/institute/ie''"
  "lower ''Institute of Ecology'' = ''institute of ecology''"
  "lower ''http://leuphana.de/resource/research-center/ecology-center''
     = ''http://leuphana.de/resource/research-center/ecology-center''"
  "lower ''http://leuphana.de/resource/institute/primo-lab''
     = ''http://leuphana.de/resource/institute/primo-lab''"
  "lower ''http://leuphana.de/resource/institute/management''
     = ''http://leuphana.de/resource/institute/management''"
  "lower ''IMO'' = ''imo''"
  by code_simp+

lemmas resolver_defs = has_sp_def subjects_def objects_def candidate_matches_def
  has_abbreviation_def hinted_candidates_def type_to_class_def uri_or_name_holds_def

theorem resolve_org_uri_total_witness:
  "\<not> has_sp ecology_graph (URIRef ''http://leuphana.de/resource/institute/imo'') RDF_type
   \<and> \<not> list_ex (candidate_matches ecology_graph
                  (trailing_segment ''http://leuphana.de/resource/institute/imo''))
           (hinted_candidates ecology_graph ''http://leuphana.de/resource/institute/imo'')
   \<and> resolve_org_uri ecology_graph ''http://leuphana.de/resource/institute/imo''
        = Inr university_uri"
proof -
  have a: "\<not> has_sp ecology_graph (URIRef ''http://leuphana.de/resource/institute/imo'') RDF_type"
    by (simp add: ecology_graph_def has_sp_def)
  have b: "\<not> list_ex (candidate_matches ecology_graph
                  (trailing_segment ''http://leuphana.de/resource/institute/imo''))
           (hinted_candidates ecology_graph ''http://leuphana.de/resource/institute/imo'')"
    by (simp add: segments_imo ecology_graph_def resolver_defs lower_examples ns_defs)
  show ?thesis
    using a b resolve_org_uri_total[of ecology_graph "''http://leuphana.de/resource/institute/imo''"]
    by auto
qed





subsection \<open>Entity registry\<close>

lemma create_uri_prof_anna:
  "create_uri ''person'' ''Prof. Dr. Anna Schmidt''
     = ''http://leuphana.de/resource/person/prof-dr-anna-schmidt''"
proof -
  have l: "lower ''Prof. Dr. Anna Schmidt'' = ''prof. dr. anna schmidt''" by code_simp
  show ?thesis
    unfolding create_uri_def Let_def l by (simp add: py_strip_def char_class_defs)
qed


lemma create_uri_chair_ecology:
  "create_uri ''chair'' ''Professorship for Ecology''
     = ''http://leuphana.de/resource/chair/professorship-for-ecology''"
proof -
  have l: "lower ''Professorship for Ecology'' = ''professorship for ecology''" by code_simp
  show ?thesis
    unfolding create_uri_def Let_def l by (simp add: py_strip_def char_class_defs)
qed

lemma extract_prof_anna:
  "extract_name_parts ''Prof. Dr. Anna Schmidt'' = (Some ''Anna'', ''Schmidt'', Some ''Prof. Dr.'')"
  by (simp add: extract_name_parts_def split_def is_space_def is_title_token_def titles_def)


lemma strip_chair_ecology:
  "py_strip is_space ''Professorship for Ecology'' = ''Professorship for Ecology''"
  by (simp add: py_strip_def is_space_def)



text \<open>
  Claim C7. With "Anna Schmidt" in the person registry, a link of a staff list with the text
  "Prof. Dr. Anna Schmidt" and a chair heading with that professor's name each leave two
  persons in the registry: \<open>list_page_link\<close> looks at no existing name, and
  \<open>create_chair_from_heading\<close> accepts an existing person only when the new name is inside
  the stored one, which it finds when the two names come in the other order. The
  find-or-create step of the sibling \<^verbatim>\<open>_scrape_single_professorship\<close> tests containment in
  both directions and resolves the same registration to the one existing person; its test
  compares the names as they are written, case included.
\<close>

theorem alias_registered_twice:
  "map fst (persons (list_page_link (Some ''Professor'') ''https://www.leuphana.de/staff.html''
                       prof_anna_link anna_registered))
     = [''http://leuphana.de/resource/person/anna-schmidt'',
        ''http://leuphana.de/resource/person/prof-dr-anna-schmidt'']
   \<and> map fst (persons (create_chair_from_heading upper ''Professorship for Ecology''
                         (Some ''Prof. Dr. Anna Schmidt'') ''https://www.leuphana.de/ie.html''
                         ''IE'' anna_registered))
     = [''http://leuphana.de/resource/person/anna-schmidt'',
        ''http://leuphana.de/resource/person/prof-dr-anna-schmidt'']
   \<and> map fst (persons (create_chair_from_heading upper ''Professorship for Ecology''
                         (Some ''Anna Schmidt'') ''https://www.leuphana.de/ie.html''
                         ''IE'' prof_anna_registered))
     = [''http://leuphana.de/resource/person/prof-dr-anna-schmidt'']
   \<and> map fst (persons (fst (register_holder ''Prof. Dr. Anna Schmidt''
                              ''https://www.leuphana.de/ecology.html'' anna_registered)))
     = [''http://leuphana.de/resource/person/anna-schmidt'']
   \<and> \<not> holder_alias ''anna schmidt'' ''Anna Schmidt''"
proof -
  have 1: "map fst (persons (list_page_link (Some ''Professor'') ''https://www.leuphana.de/staff.html''
                       prof_anna_link anna_registered))
     = [''http://leuphana.de/resource/person/anna-schmidt'',
        ''http://leuphana.de/resource/person/prof-dr-anna-schmidt'']"
    by (simp add: list_page_link_def prof_anna_link_def anna_registered_def Let_def
          extract_prof_anna create_uri_prof_anna str_or_def new_person_def)
  have 2: "map fst (persons (create_chair_from_heading upper ''Professorship for Ecology''
                         (Some ''Prof. Dr. Anna Schmidt'') ''https://www.leuphana.de/ie.html''
                         ''IE'' anna_registered))
     = [''http://leuphana.de/resource/person/anna-schmidt'',
        ''http://leuphana.de/resource/person/prof-dr-anna-schmidt'']"
    by (simp add: create_chair_from_heading_def anna_registered_def Let_def strip_chair_ecology
          create_uri_chair_ecology dict_has_def find_parent_institute_def find_professor_def
          truthy_def extract_prof_anna create_uri_prof_anna new_person_def)
  have 3: "map fst (persons (create_chair_from_heading upper ''Professorship for Ecology''
                         (Some ''Anna Schmidt'') ''https://www.leuphana.de/ie.html''
                         ''IE'' prof_anna_registered))
     = [''http://leuphana.de/resource/person/prof-dr-anna-schmidt'']"
    by (simp add: create_chair_from_heading_def prof_anna_registered_def Let_def strip_chair_ecology
          create_uri_chair_ecology dict_has_def find_parent_institute_def find_professor_def
          truthy_def new_person_def)
  have 4: "map fst (persons (fst (register_holder ''Prof. Dr. Anna Schmidt''
                              ''https://www.leuphana.de/ecology.html'' anna_registered)))
     = [''http://leuphana.de/resource/person/anna-schmidt'']"
    by (simp add: register_holder_def find_holder_def holder_alias_def anna_registered_def
          new_person_def truthy_def Let_def)
  have 5: "\<not> holder_alias ''anna schmidt'' ''Anna Schmidt''"
    by (simp add: holder_alias_def)
  from 1 2 3 4 5 show ?thesis by simp
qed




end
